theory Spec2Isabelle
  imports Complex_Main
begin

section \<open>Python values and built-ins used by \<^verbatim>\<open>climate.py\<close>\<close>

text \<open>
  The entity of \<^verbatim>\<open>src/climate.py\<close> works on decoded JSON: the appliance settings, the
  capability table and the service arguments hold scalars. A Python float is
  represented by the rational it denotes (every finite binary64 value is a rational),
  or by one of the three special values. For a float obtained from a decimal string
  the rational is the value of the literal; the rounding of that value to the nearest
  binary64 (to an infinity, beyond the range) is not part of the model. Strings are
  ASCII character lists.
\<close>

datatype pyfloat = Finite rat | PosInf | NegInf | NaN

datatype pyval = PNone | PBool bool | PInt int | PFloat pyfloat | PStr string

datatype py_error = KeyError | ValueError | TypeError | OverflowError | TransportError

text \<open>Truth value of an object, as \<^verbatim>\<open>filter(None, ...)\<close> and \<^verbatim>\<open>or\<close> test it.\<close>

fun py_bool :: "pyval \<Rightarrow> bool" where
  "py_bool PNone = False"
| "py_bool (PBool b) = b"
| "py_bool (PInt i) = (i \<noteq> 0)"
| "py_bool (PFloat f) = (f \<noteq> Finite 0)"
| "py_bool (PStr s) = (s \<noteq> [])"

text \<open>\<^verbatim>\<open>a or b\<close>: the first operand when it is true, the second otherwise.\<close>

definition py_or :: "pyval \<Rightarrow> pyval \<Rightarrow> pyval" where
  "py_or a b = (if py_bool a then a else b)"

subsection \<open>Characters\<close>

definition is_digit :: "char \<Rightarrow> bool" where
  "is_digit c = (48 \<le> (of_char c :: nat) \<and> (of_char c :: nat) \<le> 57)"

definition digit_val :: "char \<Rightarrow> nat" where
  "digit_val c = of_char c - 48"

text \<open>
  White space that \<^verbatim>\<open>int\<close> and \<^verbatim>\<open>float\<close> strip from both ends of a string:
  TAB, LF, VT, FF, CR, the separators 0x1C to 0x1F, and the blank.
\<close>

definition is_space :: "char \<Rightarrow> bool" where
  "is_space c = (let n = (of_char c :: nat) in (9 \<le> n \<and> n \<le> 13) \<or> (28 \<le> n \<and> n \<le> 32))"

definition strip :: "string \<Rightarrow> string" where
  "strip s = rev (dropWhile is_space (rev (dropWhile is_space s)))"

definition lower_char :: "char \<Rightarrow> char" where
  "lower_char c = (let n = (of_char c :: nat) in if 65 \<le> n \<and> n \<le> 90 then char_of (n + 32) else c)"

subsection \<open>Decimal numerals\<close>

text \<open>Value of a digit string, most significant digit first.\<close>

definition digits_val :: "string \<Rightarrow> nat" where
  "digits_val ds = foldl (\<lambda>acc c. 10 * acc + digit_val c) 0 ds"

text \<open>
  Underscores in a numeric string: allowed only directly after a digit and directly
  before a digit. \<open>prev\<close> is the previous character, if any.
\<close>

fun underscores_ok :: "char option \<Rightarrow> string \<Rightarrow> bool" where
  "underscores_ok prev [] = (prev \<noteq> Some CHR ''_'')"
| "underscores_ok prev (c # cs) =
     (if c = CHR ''_''
      then (case prev of None \<Rightarrow> False | Some p \<Rightarrow> is_digit p \<and> underscores_ok (Some c) cs)
      else (if prev = Some CHR ''_'' \<and> \<not> is_digit c then False else underscores_ok (Some c) cs))"

definition drop_underscores :: "string \<Rightarrow> string" where
  "drop_underscores s = filter (\<lambda>c. c \<noteq> CHR ''_'') s"

text \<open>An optional sign: the sign read (\<open>True\<close> for minus) and the rest.\<close>

fun take_sign :: "string \<Rightarrow> bool \<times> string" where
  "take_sign [] = (False, [])"
| "take_sign (c # cs) =
     (if c = CHR ''-'' then (True, cs) else if c = CHR ''+'' then (False, cs) else (False, c # cs))"

text \<open>
  \<^verbatim>\<open>int(s)\<close> for a string, base 10: white space stripped, an optional sign, then
  digits that may be grouped by single underscores. Anything else is a \<^verbatim>\<open>ValueError\<close>.
  The limit that newer interpreters put on the number of digits is not modelled.
\<close>

definition int_of_str :: "string \<Rightarrow> int option" where
  "int_of_str s =
     (let (neg, r) = take_sign (strip s) in
      if r \<noteq> [] \<and> list_all (\<lambda>c. is_digit c \<or> c = CHR ''_'') r \<and> underscores_ok None r
      then (let n = int (digits_val (drop_underscores r)) in Some (if neg then - n else n))
      else None)"

text \<open>
  \<^verbatim>\<open>float(s)\<close> for a string: white space stripped, underscores checked and removed,
  then an optional sign followed by \<^verbatim>\<open>inf\<close>, \<^verbatim>\<open>infinity\<close> or \<^verbatim>\<open>nan\<close> in any
  case, or by a decimal number: digits with an optional fraction (at least one digit
  on one side of the point) and an optional exponent.
\<close>

definition span_digits :: "string \<Rightarrow> string \<times> string" where
  "span_digits s = (takeWhile is_digit s, dropWhile is_digit s)"

definition float_exponent :: "string \<Rightarrow> int option" where
  "float_exponent r =
     (case r of
        [] \<Rightarrow> Some 0
      | c # cs \<Rightarrow>
          if c = CHR ''e'' \<or> c = CHR ''E''
          then (let (neg, r') = take_sign cs in
                if r' \<noteq> [] \<and> list_all is_digit r'
                then Some (if neg then - int (digits_val r') else int (digits_val r'))
                else None)
          else None)"

definition pow10 :: "int \<Rightarrow> rat" where
  "pow10 e = (if 0 \<le> e then 10 ^ nat e else 1 / 10 ^ nat (- e))"

definition float_number :: "string \<Rightarrow> rat option" where
  "float_number r =
     (let (ip, r1) = span_digits r;
          (fp, r2) = (case r1 of
                        [] \<Rightarrow> ([], [])
                      | c # cs \<Rightarrow> if c = CHR ''.'' then span_digits cs else ([], r1))
      in if ip = [] \<and> fp = [] then None
         else (case float_exponent r2 of
                 None \<Rightarrow> None
               | Some e \<Rightarrow>
                   Some (of_nat (digits_val (ip @ fp)) * pow10 (e - int (length fp)))))"

definition float_of_str :: "string \<Rightarrow> pyfloat option" where
  "float_of_str s =
     (let t = strip s in
      if \<not> underscores_ok None t then None
      else (let (neg, r) = take_sign (drop_underscores t);
                w = map lower_char r
            in if w = ''inf'' \<or> w = ''infinity'' then Some (if neg then NegInf else PosInf)
               else if w = ''nan'' then Some NaN
               else (case float_number r of
                       None \<Rightarrow> None
                     | Some q \<Rightarrow> Some (Finite (if neg then - q else q)))))"

text \<open>\<^verbatim>\<open>str(n)\<close> of an integer, as the f-string of \<^verbatim>\<open>set_temperature\<close> formats it.\<close>

fun str_nat :: "nat \<Rightarrow> string" where
  "str_nat n = (if n < 10 then [char_of (48 + n)] else str_nat (n div 10) @ [char_of (48 + n mod 10)])"

declare str_nat.simps [simp del]

definition str_int :: "int \<Rightarrow> string" where
  "str_int i = (if i < 0 then CHR ''-'' # str_nat (nat (- i)) else str_nat (nat i))"

text \<open>Truncation toward zero, as \<^verbatim>\<open>int\<close> converts a float.\<close>

definition trunc :: "rat \<Rightarrow> int" where
  "trunc q = (if 0 \<le> q then \<lfloor>q\<rfloor> else \<lceil>q\<rceil>)"

text \<open>
  \<^verbatim>\<open>int(x)\<close>: \<^verbatim>\<open>None\<close> is a \<^verbatim>\<open>TypeError\<close>, an infinity an \<^verbatim>\<open>OverflowError\<close>, a
  NaN and an ill-formed string a \<^verbatim>\<open>ValueError\<close>.
\<close>

fun py_int :: "pyval \<Rightarrow> py_error + int" where
  "py_int PNone = Inl TypeError"
| "py_int (PBool b) = Inr (if b then 1 else 0)"
| "py_int (PInt i) = Inr i"
| "py_int (PFloat (Finite q)) = Inr (trunc q)"
| "py_int (PFloat NaN) = Inl ValueError"
| "py_int (PFloat f) = Inl OverflowError"
| "py_int (PStr s) = (case int_of_str s of None \<Rightarrow> Inl ValueError | Some i \<Rightarrow> Inr i)"

text \<open>
  \<^verbatim>\<open>float(x)\<close>. An integer too large for a binary64 (one that rounds to
  \<open>2 ^ 1024\<close> or beyond) is an \<^verbatim>\<open>OverflowError\<close>.
\<close>

fun py_float :: "pyval \<Rightarrow> py_error + pyfloat" where
  "py_float PNone = Inl TypeError"
| "py_float (PBool b) = Inr (Finite (if b then 1 else 0))"
| "py_float (PInt i) =
     (if \<bar>i\<bar> < 2 ^ 1024 - 2 ^ 970 then Inr (Finite (of_int i)) else Inl OverflowError)"
| "py_float (PFloat f) = Inr f"
| "py_float (PStr s) = (case float_of_str s of None \<Rightarrow> Inl ValueError | Some f \<Rightarrow> Inr f)"


section \<open>The climate entity\<close>

subsection \<open>Constants and translation tables\<close>

text \<open>
  The six operation modes of the host platform. Their string values are constants of
  the platform, imported by \<^verbatim>\<open>climate.py\<close>; the model keeps them as an enumeration,
  so a mode outside the six cannot be passed.
\<close>

datatype hvac =
  HVAC_MODE_AUTO | HVAC_MODE_FAN_ONLY | HVAC_MODE_COOL | HVAC_MODE_DRY | HVAC_MODE_HEAT | HVAC_MODE_OFF

text \<open>The keyword of the temperature argument, a constant of the host platform.\<close>

definition ATTR_TEMPERATURE :: string where
  "ATTR_TEMPERATURE = ''temperature''"

text \<open>
  Modelled from the spec: the platform's fallback bounds \<^verbatim>\<open>DEFAULT_MIN_TEMP\<close> and
  \<^verbatim>\<open>DEFAULT_MAX_TEMP\<close>, which \<^verbatim>\<open>climate.py\<close> imports; the spec gives 7 and 35.
\<close>

definition DEFAULT_MIN_TEMP :: int where
  "DEFAULT_MIN_TEMP = 7"

definition DEFAULT_MAX_TEMP :: int where
  "DEFAULT_MAX_TEMP = 35"

definition MODE_HA_TO_REMO :: "(hvac \<times> string) list" where
  "MODE_HA_TO_REMO =
     [(HVAC_MODE_AUTO, ''auto''),
      (HVAC_MODE_FAN_ONLY, ''blow''),
      (HVAC_MODE_COOL, ''cool''),
      (HVAC_MODE_DRY, ''dry''),
      (HVAC_MODE_HEAT, ''warm''),
      (HVAC_MODE_OFF, ''power-off'')]"

definition MODE_REMO_TO_HA :: "(string \<times> hvac) list" where
  "MODE_REMO_TO_HA =
     [(''auto'', HVAC_MODE_AUTO),
      (''blow'', HVAC_MODE_FAN_ONLY),
      (''cool'', HVAC_MODE_COOL),
      (''dry'', HVAC_MODE_DRY),
      (''warm'', HVAC_MODE_HEAT),
      (''power-off'', HVAC_MODE_OFF)]"

text \<open>\<^verbatim>\<open>d[k]\<close>: a missing key raises \<^verbatim>\<open>KeyError\<close>.\<close>

definition getitem :: "('k \<rightharpoonup> 'v) \<Rightarrow> 'k \<Rightarrow> py_error + 'v" where
  "getitem d k = (case d k of None \<Rightarrow> Inl KeyError | Some v \<Rightarrow> Inr v)"

text \<open>
  \<^verbatim>\<open>d[k]\<close> for a dictionary with string keys and a key that is any scalar: only a
  string can be equal to a key.
\<close>

definition getitem_val :: "(string \<rightharpoonup> 'v) \<Rightarrow> pyval \<Rightarrow> py_error + 'v" where
  "getitem_val d k = (case k of PStr s \<Rightarrow> getitem d s | _ \<Rightarrow> Inl KeyError)"

subsection \<open>Data\<close>

text \<open>
  The appliance descriptor of the remote API: \<^verbatim>\<open>appliance["nickname"]\<close>,
  \<^verbatim>\<open>appliance["id"]\<close>, \<^verbatim>\<open>appliance["aircon"]["range"]["modes"]\<close> (the capability
  table: per raw mode the lists under \<^verbatim>\<open>"temp"\<close>, \<^verbatim>\<open>"vol"\<close> and \<^verbatim>\<open>"dir"\<close>) and
  \<^verbatim>\<open>appliance["settings"]\<close> (the raw settings snapshot, a dictionary).
\<close>

record appliance =
  nickname :: string
  appliance_id :: string
  range_modes :: "string \<rightharpoonup> (string \<rightharpoonup> pyval list)"
  settings :: "string \<rightharpoonup> pyval"

text \<open>
  Modelled from the spec: the integration's configuration, whose schema is declared
  outside \<^verbatim>\<open>climate.py\<close>; the spec gives two integers, the default temperatures for
  cooling and heating.
\<close>

record config =
  CONF_COOL_TEMP :: int
  CONF_HEAT_TEMP :: int

text \<open>
  The attributes of \<^verbatim>\<open>NatureRemoAC\<close>. A leading underscore of a Python name is
  written \<open>priv_\<close>.
\<close>

record NatureRemoAC =
  priv_default_temp :: "hvac \<rightharpoonup> int"
  priv_name :: string
  priv_appliance_id :: string
  priv_modes :: "string \<rightharpoonup> (string \<rightharpoonup> pyval list)"
  priv_hvac_mode :: "hvac option"
  priv_target_temperature :: "pyfloat option"
  priv_remo_mode :: pyval
  priv_fan_mode :: pyval
  priv_swing_mode :: pyval

text \<open>
  The API client is outside the entity. A call of \<^verbatim>\<open>self._api.post(path, data)\<close> is
  recorded in \<open>api_calls\<close>; what the client does with it (return a response, or raise) is
  the parameter \<open>api\<close> of the commands: \<open>None\<close> when it returns.
\<close>

type_synonym payload = "(string \<times> pyval) list"

type_synonym api_client = "string \<Rightarrow> payload \<Rightarrow> py_error option"

record world =
  entity :: NatureRemoAC
  api_calls :: "(string \<times> payload) list"

subsection \<open>Ingestion\<close>

text \<open>
  \<^verbatim>\<open>_update\<close>. An exception leaves the attributes assigned before it in place, so the
  result is the exception raised, if any, together with the entity as it is then.
\<close>

definition priv_update :: "appliance \<Rightarrow> NatureRemoAC \<Rightarrow> py_error option \<times> NatureRemoAC" where
  "priv_update appl self =
     (let ac_settings = settings appl in
      case getitem ac_settings ''mode'' of
        Inl e \<Rightarrow> (Some e, self)
      | Inr m \<Rightarrow>
         (let self1 = self\<lparr>priv_remo_mode := m\<rparr>;
              self2 = self1\<lparr>priv_target_temperature :=
                        (case getitem ac_settings ''temp'' of
                           Inl e \<Rightarrow> None
                         | Inr t \<Rightarrow> (case py_float t of Inl e \<Rightarrow> None | Inr f \<Rightarrow> Some f))\<rparr>
          in case getitem ac_settings ''button'' of
               Inl e \<Rightarrow> (Some e, self2)
             | Inr b \<Rightarrow>
                (case getitem (map_of MODE_HA_TO_REMO) HVAC_MODE_OFF of
                   Inl e \<Rightarrow> (Some e, self2)
                 | Inr off \<Rightarrow>
                    (case (if b = PStr off then Inr HVAC_MODE_OFF
                           else getitem_val (map_of MODE_REMO_TO_HA) (priv_remo_mode self2)) of
                       Inl e \<Rightarrow> (Some e, self2)
                     | Inr h \<Rightarrow>
                        (let self3 = self2\<lparr>priv_hvac_mode := Some h\<rparr> in
                         case getitem ac_settings ''vol'' of
                           Inl e \<Rightarrow> (Some e, self3)
                         | Inr v \<Rightarrow>
                            (let self4 = self3\<lparr>priv_fan_mode := py_or v PNone\<rparr> in
                             case getitem ac_settings ''dir'' of
                               Inl e \<Rightarrow> (Some e, self4)
                             | Inr d \<Rightarrow> (None, self4\<lparr>priv_swing_mode := py_or d PNone\<rparr>)))))))"

text \<open>\<^verbatim>\<open>__init__\<close>: the attributes are set, then the initial snapshot is ingested.\<close>

definition init :: "appliance \<Rightarrow> config \<Rightarrow> py_error + NatureRemoAC" where
  "init appl conf =
     (let self = \<lparr>priv_default_temp =
                    [HVAC_MODE_COOL \<mapsto> CONF_COOL_TEMP conf, HVAC_MODE_HEAT \<mapsto> CONF_HEAT_TEMP conf],
                  priv_name = ''Nature Remo '' @ nickname appl,
                  priv_appliance_id = appliance_id appl,
                  priv_modes = range_modes appl,
                  priv_hvac_mode = None,
                  priv_target_temperature = None,
                  priv_remo_mode = PNone,
                  priv_fan_mode = PNone,
                  priv_swing_mode = PNone\<rparr>
      in case priv_update appl self of
           (Some e, self') \<Rightarrow> Inl e
         | (None, self') \<Rightarrow> Inr self')"

text \<open>
  \<^verbatim>\<open>update\<close>: the appliance is fetched by the API client (\<open>fetched\<close> is what the client
  returns or raises) and ingested.
\<close>

definition update :: "py_error + appliance \<Rightarrow> world \<Rightarrow> py_error option \<times> world" where
  "update fetched w =
     (case fetched of
        Inl e \<Rightarrow> (Some e, w)
      | Inr appl \<Rightarrow> (case priv_update appl (entity w) of (r, self') \<Rightarrow> (r, w\<lparr>entity := self'\<rparr>)))"

subsection \<open>Capability lookups\<close>

definition hvac_modes :: "hvac list" where
  "hvac_modes = map fst MODE_HA_TO_REMO"

definition fan_modes :: "NatureRemoAC \<Rightarrow> py_error + pyval list" where
  "fan_modes self =
     (case getitem_val (priv_modes self) (priv_remo_mode self) of
        Inl e \<Rightarrow> Inl e
      | Inr entry \<Rightarrow> getitem entry ''vol'')"

definition swing_modes :: "NatureRemoAC \<Rightarrow> py_error + pyval list" where
  "swing_modes self =
     (case getitem_val (priv_modes self) (priv_remo_mode self) of
        Inl e \<Rightarrow> Inl e
      | Inr entry \<Rightarrow> getitem entry ''dir'')"

text \<open>\<^verbatim>\<open>list(map(int, xs))\<close>: the first element that does not convert raises.\<close>

fun map_int :: "pyval list \<Rightarrow> py_error + int list" where
  "map_int [] = Inr []"
| "map_int (x # xs) =
     (case py_int x of
        Inl e \<Rightarrow> Inl e
      | Inr i \<Rightarrow> (case map_int xs of Inl e \<Rightarrow> Inl e | Inr js \<Rightarrow> Inr (i # js)))"

definition priv_current_mode_temp_range :: "NatureRemoAC \<Rightarrow> py_error + int list" where
  "priv_current_mode_temp_range self =
     (case getitem_val (priv_modes self) (priv_remo_mode self) of
        Inl e \<Rightarrow> Inl e
      | Inr entry \<Rightarrow>
         (case getitem entry ''temp'' of
            Inl e \<Rightarrow> Inl e
          | Inr temp_range \<Rightarrow> map_int (filter py_bool temp_range)))"

definition min_temp :: "NatureRemoAC \<Rightarrow> py_error + int" where
  "min_temp self =
     (case priv_current_mode_temp_range self of
        Inl e \<Rightarrow> Inl e
      | Inr temp_range \<Rightarrow>
         (case temp_range of [] \<Rightarrow> Inr DEFAULT_MIN_TEMP | t # ts \<Rightarrow> Inr (fold min ts t)))"

definition max_temp :: "NatureRemoAC \<Rightarrow> py_error + int" where
  "max_temp self =
     (case priv_current_mode_temp_range self of
        Inl e \<Rightarrow> Inl e
      | Inr temp_range \<Rightarrow>
         (case temp_range of [] \<Rightarrow> Inr DEFAULT_MAX_TEMP | t # ts \<Rightarrow> Inr (fold max ts t)))"

subsection \<open>Commands\<close>

definition priv_post :: "api_client \<Rightarrow> payload \<Rightarrow> world \<Rightarrow> py_error option \<times> world" where
  "priv_post api data w =
     (let path = ''/appliances/'' @ priv_appliance_id (entity w) @ ''/aircon_settings''
      in (api path data, w\<lparr>api_calls := api_calls w @ [(path, data)]\<rparr>))"

definition set_temperature ::
  "api_client \<Rightarrow> (string \<rightharpoonup> pyval) \<Rightarrow> world \<Rightarrow> py_error option \<times> world" where
  "set_temperature api kwargs w =
     (let target_temp = (case kwargs ATTR_TEMPERATURE of None \<Rightarrow> PNone | Some v \<Rightarrow> v) in
      if target_temp = PNone then (None, w)
      else (case py_int target_temp of
              Inl e \<Rightarrow> (Some e, w)
            | Inr n \<Rightarrow> priv_post api [(''temperature'', PStr (str_int n))] w))"

definition set_hvac_mode :: "api_client \<Rightarrow> hvac \<Rightarrow> world \<Rightarrow> py_error option \<times> world" where
  "set_hvac_mode api hvac_mode w =
     (case getitem (map_of MODE_HA_TO_REMO) hvac_mode of
        Inl e \<Rightarrow> (Some e, w)
      | Inr mode \<Rightarrow>
         (case getitem (map_of MODE_HA_TO_REMO) HVAC_MODE_OFF of
            Inl e \<Rightarrow> (Some e, w)
          | Inr off \<Rightarrow>
             if mode = off then priv_post api [(''button'', PStr mode)] w
             else priv_post api
                    [(''operation_mode'', PStr mode),
                     (''temperature'',
                      (case priv_default_temp (entity w) hvac_mode of
                         None \<Rightarrow> PNone
                       | Some t \<Rightarrow> PInt t))] w))"

definition set_fan_mode :: "api_client \<Rightarrow> string \<Rightarrow> world \<Rightarrow> py_error option \<times> world" where
  "set_fan_mode api fan_mode w = priv_post api [(''air_volume'', PStr fan_mode)] w"

definition async_set_swing_mode :: "api_client \<Rightarrow> string \<Rightarrow> world \<Rightarrow> py_error option \<times> world" where
  "async_set_swing_mode api swing_mode w = priv_post api [(''air_direction'', PStr swing_mode)] w"

subsection \<open>An example appliance\<close>

text \<open>
  An air conditioner with four raw modes, configured with the default temperatures 26
  (cooling) and 20 (heating), and the entity that \<open>init\<close> builds from it.
\<close>

definition example_modes :: "string \<rightharpoonup> (string \<rightharpoonup> pyval list)" where
  "example_modes =
     [''cool'' \<mapsto> [''temp'' \<mapsto> [PStr ''18'', PStr ''30''],
                  ''vol'' \<mapsto> [PStr ''auto'', PStr ''low''],
                  ''dir'' \<mapsto> [PStr ''auto'', PStr ''1'']],
      ''warm'' \<mapsto> [''temp'' \<mapsto> [PStr ''18'', PStr [], PStr ''30'', PNone],
                  ''vol'' \<mapsto> [PStr ''auto''],
                  ''dir'' \<mapsto> [PStr ''swing'']],
      ''dry'' \<mapsto> [''temp'' \<mapsto> [PStr ''30'', PStr ''18''],
                 ''vol'' \<mapsto> [],
                 ''dir'' \<mapsto> []],
      ''blow'' \<mapsto> [''temp'' \<mapsto> [PStr [], PNone],
                  ''vol'' \<mapsto> [PStr ''auto''],
                  ''dir'' \<mapsto> []]]"

definition example_settings :: "string \<rightharpoonup> pyval" where
  "example_settings =
     [''mode'' \<mapsto> PStr ''cool'', ''temp'' \<mapsto> PStr ''25'', ''button'' \<mapsto> PStr [],
      ''vol'' \<mapsto> PStr ''auto'', ''dir'' \<mapsto> PStr ''auto'']"

definition example_appliance :: appliance where
  "example_appliance =
     \<lparr>nickname = ''Living'', appliance_id = ''ac1'', range_modes = example_modes,
      settings = example_settings\<rparr>"

definition example_config :: config where
  "example_config = \<lparr>CONF_COOL_TEMP = 26, CONF_HEAT_TEMP = 20\<rparr>"

definition example_entity :: NatureRemoAC where
  "example_entity =
     \<lparr>priv_default_temp = [HVAC_MODE_COOL \<mapsto> 26, HVAC_MODE_HEAT \<mapsto> 20],
      priv_name = ''Nature Remo Living'',
      priv_appliance_id = ''ac1'',
      priv_modes = example_modes,
      priv_hvac_mode = Some HVAC_MODE_COOL,
      priv_target_temperature = Some (Finite 25),
      priv_remo_mode = PStr ''cool'',
      priv_fan_mode = PStr ''auto'',
      priv_swing_mode = PStr ''auto''\<rparr>"

definition example_world :: world where
  "example_world = \<lparr>entity = example_entity, api_calls = []\<rparr>"

text \<open>An API client that answers every call.\<close>

definition api_ok :: api_client where
  "api_ok path data = None"

section \<open>Properties\<close>

subsection \<open>Facts about the tables and the built-ins\<close>

lemma float_of_str_25: "float_of_str ''25'' = Some (Finite 25)"
  by code_simp

lemma float_of_str_empty: "float_of_str [] = None"
  by code_simp


lemma off_token: "getitem (map_of MODE_HA_TO_REMO) HVAC_MODE_OFF = Inr ''power-off''"
  by (simp add: getitem_def MODE_HA_TO_REMO_def)

lemma ha_to_remo:
  "getitem (map_of MODE_HA_TO_REMO) m =
     Inr (case m of
            HVAC_MODE_AUTO \<Rightarrow> ''auto''
          | HVAC_MODE_FAN_ONLY \<Rightarrow> ''blow''
          | HVAC_MODE_COOL \<Rightarrow> ''cool''
          | HVAC_MODE_DRY \<Rightarrow> ''dry''
          | HVAC_MODE_HEAT \<Rightarrow> ''warm''
          | HVAC_MODE_OFF \<Rightarrow> ''power-off'')"
  by (cases m) (simp_all add: getitem_def MODE_HA_TO_REMO_def)

lemma init_example: "init example_appliance example_config = Inr example_entity"
  by (simp add: init_def priv_update_def example_appliance_def example_config_def
      example_entity_def example_settings_def getitem_def getitem_val_def MODE_HA_TO_REMO_def
      MODE_REMO_TO_HA_def float_of_str_25 py_or_def)

subsection \<open>Mode translation\<close>

text \<open>
  C6. Translating any of the six operation modes to its raw token through
  \<open>MODE_HA_TO_REMO\<close> and back through \<open>MODE_REMO_TO_HA\<close> gives the mode again; neither
  lookup raises.
\<close>

theorem mode_round_trip:
  "(case getitem (map_of MODE_HA_TO_REMO) m of
      Inl e \<Rightarrow> Inl e
    | Inr r \<Rightarrow> getitem (map_of MODE_REMO_TO_HA) r) = Inr m"
proof (cases m)
  case HVAC_MODE_AUTO
  then show ?thesis by (simp add: ha_to_remo) (simp add: getitem_def MODE_REMO_TO_HA_def)
next
  case HVAC_MODE_FAN_ONLY
  then show ?thesis by (simp add: ha_to_remo) (simp add: getitem_def MODE_REMO_TO_HA_def)
next
  case HVAC_MODE_COOL
  then show ?thesis by (simp add: ha_to_remo) (simp add: getitem_def MODE_REMO_TO_HA_def)
next
  case HVAC_MODE_DRY
  then show ?thesis by (simp add: ha_to_remo) (simp add: getitem_def MODE_REMO_TO_HA_def)
next
  case HVAC_MODE_HEAT
  then show ?thesis by (simp add: ha_to_remo) (simp add: getitem_def MODE_REMO_TO_HA_def)
next
  case HVAC_MODE_OFF
  then show ?thesis by (simp add: ha_to_remo) (simp add: getitem_def MODE_REMO_TO_HA_def)
qed

subsection \<open>Ingestion\<close>

text \<open>The outcome of \<open>priv_update\<close> on a snapshot, by the branch of the mode test taken.\<close>


lemma priv_update_off:
  assumes "settings appl ''mode'' = Some m" "settings appl ''button'' = Some (PStr ''power-off'')"
    "settings appl ''vol'' = Some v" "settings appl ''dir'' = Some d"
  shows "priv_update appl self =
     (None, self\<lparr>priv_remo_mode := m,
                 priv_target_temperature :=
                        (case getitem (settings appl) ''temp'' of
                           Inl e \<Rightarrow> None
                         | Inr t \<Rightarrow> (case py_float t of Inl e \<Rightarrow> None | Inr f \<Rightarrow> Some f)),
                 priv_hvac_mode := Some HVAC_MODE_OFF,
                 priv_fan_mode := py_or v PNone,
                 priv_swing_mode := py_or d PNone\<rparr>)"
  using assms by (simp add: priv_update_def getitem_def off_token[unfolded getitem_def] Let_def)

lemma priv_update_on:
  assumes "settings appl ''mode'' = Some m" "settings appl ''button'' = Some b"
    "b \<noteq> PStr ''power-off''"
    "settings appl ''vol'' = Some v" "settings appl ''dir'' = Some d"
    "getitem_val (map_of MODE_REMO_TO_HA) m = Inr h"
  shows "priv_update appl self =
     (None, self\<lparr>priv_remo_mode := m,
                 priv_target_temperature :=
                        (case getitem (settings appl) ''temp'' of
                           Inl e \<Rightarrow> None
                         | Inr t \<Rightarrow> (case py_float t of Inl e \<Rightarrow> None | Inr f \<Rightarrow> Some f)),
                 priv_hvac_mode := Some h,
                 priv_fan_mode := py_or v PNone,
                 priv_swing_mode := py_or d PNone\<rparr>)"
  using assms by (simp add: priv_update_def getitem_def off_token[unfolded getitem_def] Let_def)

lemma priv_update_unknown:
  assumes "settings appl ''mode'' = Some m" "settings appl ''button'' = Some b"
    "b \<noteq> PStr ''power-off''"
    "getitem_val (map_of MODE_REMO_TO_HA) m = Inl e"
  shows "priv_update appl self =
     (Some e, self\<lparr>priv_remo_mode := m,
                 priv_target_temperature :=
                        (case getitem (settings appl) ''temp'' of
                           Inl e \<Rightarrow> None
                         | Inr t \<Rightarrow> (case py_float t of Inl e \<Rightarrow> None | Inr f \<Rightarrow> Some f))\<rparr>)"
  using assms by (simp add: priv_update_def getitem_def off_token[unfolded getitem_def] Let_def)

lemma getitem_val_cases:
  "getitem_val d k = (if \<exists>s. k = PStr s \<and> s \<in> dom d then Inr (the (d (case k of PStr s \<Rightarrow> s))) else Inl KeyError)"
  by (cases k) (auto simp: getitem_val_def getitem_def split: option.splits)

lemma getitem_val_Inl: "getitem_val d k = Inl e \<Longrightarrow> e = KeyError"
  by (cases k) (auto simp: getitem_val_def getitem_def split: option.splits)

lemma getitem_val_Inr_iff:
  "(\<exists>h. getitem_val d k = Inr h) = (\<exists>s. k = PStr s \<and> s \<in> dom d)"
  by (cases k) (auto simp: getitem_val_def getitem_def split: option.splits)

lemma remo_to_ha_off:
  "(getitem_val (map_of MODE_REMO_TO_HA) m = Inr HVAC_MODE_OFF) = (m = PStr ''power-off'')"
  by (cases m) (auto simp: getitem_val_def getitem_def MODE_REMO_TO_HA_def split: option.splits if_splits)

lemma priv_update_remo_mode:
  "settings appl ''mode'' = Some m \<Longrightarrow> priv_remo_mode (snd (priv_update appl self)) = m"
  by (simp add: priv_update_def getitem_def Let_def split: option.splits sum.splits)

lemma priv_update_modes:
  "priv_modes (snd (priv_update appl self)) = priv_modes self"
  by (simp add: priv_update_def getitem_def Let_def split: option.splits sum.splits)



text \<open>
  C1 (amended). For a snapshot that has the keys \<^verbatim>\<open>mode\<close>, \<^verbatim>\<open>button\<close>, \<^verbatim>\<open>vol\<close> and
  \<^verbatim>\<open>dir\<close>, ingestion raises nothing exactly when the button is \<^verbatim>\<open>"power-off"\<close> or the
  mode is a key of \<open>MODE_REMO_TO_HA\<close>; otherwise it raises \<^verbatim>\<open>KeyError\<close>. The capability
  table is not consulted: when the mode is not one of its keys, the failure comes from
  the capability lookups made afterwards, each of which raises \<^verbatim>\<open>KeyError\<close>.
\<close>

theorem ingest_raises_iff_mode_untranslated:
  assumes "settings appl ''mode'' = Some m" and "settings appl ''button'' = Some b"
    and "settings appl ''vol'' = Some v" and "settings appl ''dir'' = Some d"
  shows "(fst (priv_update appl self) = None) =
           (b = PStr ''power-off'' \<or> (\<exists>s. m = PStr s \<and> s \<in> dom (map_of MODE_REMO_TO_HA)))
       \<and> (fst (priv_update appl self) \<noteq> None \<longrightarrow> fst (priv_update appl self) = Some KeyError)
       \<and> (\<not> (\<exists>s. m = PStr s \<and> s \<in> dom (priv_modes self)) \<longrightarrow>
            fan_modes (snd (priv_update appl self)) = Inl KeyError
          \<and> swing_modes (snd (priv_update appl self)) = Inl KeyError
          \<and> priv_current_mode_temp_range (snd (priv_update appl self)) = Inl KeyError)"
proof -
  let ?r = "priv_update appl self"
  have lookups: "fan_modes (snd ?r) = Inl KeyError \<and> swing_modes (snd ?r) = Inl KeyError
      \<and> priv_current_mode_temp_range (snd ?r) = Inl KeyError"
    if "\<not> (\<exists>s. m = PStr s \<and> s \<in> dom (priv_modes self))"
  proof -
    from that have "getitem_val (priv_modes self) m = Inl KeyError"
      by (simp add: getitem_val_cases)
    then show ?thesis
      by (simp add: fan_modes_def swing_modes_def priv_current_mode_temp_range_def
          priv_update_modes priv_update_remo_mode [OF assms(1)])
  qed
  show ?thesis
  proof (cases "b = PStr ''power-off''")
    case True
    with assms have "?r = (None, snd ?r)"
      by (simp add: priv_update_off)
    then have "fst ?r = None" by (metis fst_conv)
    with True lookups show ?thesis by simp
  next
    case off: False
    show ?thesis
    proof (cases "getitem_val (map_of MODE_REMO_TO_HA) m")
      case (Inl e)
      then have e: "e = KeyError" by (rule getitem_val_Inl)
      from Inl have no: "\<not> (\<exists>s. m = PStr s \<and> s \<in> dom (map_of MODE_REMO_TO_HA))"
        using getitem_val_Inr_iff [of "map_of MODE_REMO_TO_HA" m] by simp
      from priv_update_unknown [OF assms(1,2) off Inl, of self]
      have "fst ?r = Some KeyError" by (simp add: e)
      with off no lookups show ?thesis by simp
    next
      case (Inr h)
      then have yes: "\<exists>s. m = PStr s \<and> s \<in> dom (map_of MODE_REMO_TO_HA)"
        using getitem_val_Inr_iff [of "map_of MODE_REMO_TO_HA" m] by blast
      from priv_update_on [OF assms(1,2) off assms(3,4) Inr, of self]
      have "fst ?r = None" by simp
      with yes lookups show ?thesis by simp
    qed
  qed
qed

text \<open>The snapshot of a device that is off, in a mode neither table knows.\<close>

theorem ingest_raises_iff_mode_untranslated_witness:
  "fst (priv_update
          (example_appliance\<lparr>settings :=
             [''mode'' \<mapsto> PStr ''turbo'', ''temp'' \<mapsto> PStr ''25'',
              ''button'' \<mapsto> PStr ''power-off'', ''vol'' \<mapsto> PStr ''auto'',
              ''dir'' \<mapsto> PStr []]\<rparr>) example_entity) = None
   \<and> fan_modes (snd (priv_update
          (example_appliance\<lparr>settings :=
             [''mode'' \<mapsto> PStr ''turbo'', ''temp'' \<mapsto> PStr ''25'',
              ''button'' \<mapsto> PStr ''power-off'', ''vol'' \<mapsto> PStr ''auto'',
              ''dir'' \<mapsto> PStr []]\<rparr>) example_entity)) = Inl KeyError"
proof -
  let ?a = "example_appliance\<lparr>settings :=
             [''mode'' \<mapsto> PStr ''turbo'', ''temp'' \<mapsto> PStr ''25'',
              ''button'' \<mapsto> PStr ''power-off'', ''vol'' \<mapsto> PStr ''auto'',
              ''dir'' \<mapsto> PStr []]\<rparr>"
  have m: "settings ?a ''mode'' = Some (PStr ''turbo'')" by simp
  have b: "settings ?a ''button'' = Some (PStr ''power-off'')" by simp
  have v: "settings ?a ''vol'' = Some (PStr ''auto'')" by simp
  have d: "settings ?a ''dir'' = Some (PStr [])" by simp
  have t: "''turbo'' \<notin> dom (priv_modes example_entity)"
    by (simp add: example_entity_def example_modes_def)
  from ingest_raises_iff_mode_untranslated [OF m b v d, of example_entity] t
  show ?thesis by simp
qed

text \<open>
  C1 as stated fails: with the device on (an empty \<^verbatim>\<open>button\<close>) and a mode that
  \<open>MODE_REMO_TO_HA\<close> does not hold, ingestion itself raises \<^verbatim>\<open>KeyError\<close>.
\<close>

theorem ingest_unknown_mode_raises:
  "fst (priv_update
          (example_appliance\<lparr>settings :=
             [''mode'' \<mapsto> PStr ''turbo'', ''temp'' \<mapsto> PStr ''25'', ''button'' \<mapsto> PStr [],
              ''vol'' \<mapsto> PStr ''auto'', ''dir'' \<mapsto> PStr ''auto'']\<rparr>) example_entity)
   = Some KeyError"
  by (simp add: priv_update_def getitem_def getitem_val_def MODE_HA_TO_REMO_def
      MODE_REMO_TO_HA_def Let_def)

text \<open>
  C3 (amended). For a snapshot with the four keys whose button is \<^verbatim>\<open>"power-off"\<close> or
  whose mode \<open>MODE_REMO_TO_HA\<close> translates to \<open>h\<close>: ingestion raises nothing; the
  operation mode becomes off when the button is \<^verbatim>\<open>"power-off"\<close> and \<open>h\<close> otherwise,
  so it is off if and only if the button is \<^verbatim>\<open>"power-off"\<close> or the mode is the token
  \<^verbatim>\<open>"power-off"\<close> itself; the raw mode kept is the snapshot's mode in both cases, and
  the fan and swing lookups read the capability entry of that mode.
\<close>

theorem ingest_hvac_mode:
  assumes "settings appl ''mode'' = Some m" and "settings appl ''button'' = Some b"
    and "settings appl ''vol'' = Some v" and "settings appl ''dir'' = Some d"
    and "b = PStr ''power-off'' \<or> getitem_val (map_of MODE_REMO_TO_HA) m = Inr h"
  shows "fst (priv_update appl self) = None
       \<and> priv_hvac_mode (snd (priv_update appl self)) =
            Some (if b = PStr ''power-off'' then HVAC_MODE_OFF else h)
       \<and> (priv_hvac_mode (snd (priv_update appl self)) = Some HVAC_MODE_OFF) =
            (b = PStr ''power-off'' \<or> m = PStr ''power-off'')
       \<and> priv_remo_mode (snd (priv_update appl self)) = m
       \<and> fan_modes (snd (priv_update appl self)) =
            (case getitem_val (priv_modes self) m of
               Inl e \<Rightarrow> Inl e
             | Inr entry \<Rightarrow> getitem entry ''vol'')
       \<and> swing_modes (snd (priv_update appl self)) =
            (case getitem_val (priv_modes self) m of
               Inl e \<Rightarrow> Inl e
             | Inr entry \<Rightarrow> getitem entry ''dir'')"
proof -
  let ?r = "priv_update appl self"
  have mode: "priv_remo_mode (snd ?r) = m"
    by (rule priv_update_remo_mode [OF assms(1)])
  have lookups: "fan_modes (snd ?r) =
      (case getitem_val (priv_modes self) m of Inl e \<Rightarrow> Inl e | Inr entry \<Rightarrow> getitem entry ''vol'')"
    "swing_modes (snd ?r) =
      (case getitem_val (priv_modes self) m of Inl e \<Rightarrow> Inl e | Inr entry \<Rightarrow> getitem entry ''dir'')"
    by (simp_all add: fan_modes_def swing_modes_def priv_update_modes mode)
  show ?thesis
  proof (cases "b = PStr ''power-off''")
    case True
    with assms have "?r = (None, snd ?r) \<and> priv_hvac_mode (snd ?r) = Some HVAC_MODE_OFF"
      by (simp add: priv_update_off)
    then have "fst ?r = None" "priv_hvac_mode (snd ?r) = Some HVAC_MODE_OFF"
      by (metis fst_conv, simp)
    with True mode lookups show ?thesis by simp
  next
    case False
    with assms(5) have h: "getitem_val (map_of MODE_REMO_TO_HA) m = Inr h" by simp
    from priv_update_on [OF assms(1,2) False assms(3,4) h, of self]
    have r: "fst ?r = None" "priv_hvac_mode (snd ?r) = Some h" by simp_all
    from h have "(h = HVAC_MODE_OFF) = (m = PStr ''power-off'')"
      using remo_to_ha_off [of m] by auto
    with False r mode lookups show ?thesis by simp
  qed
qed

text \<open>Button \<^verbatim>\<open>"power-off"\<close> with mode \<^verbatim>\<open>"warm"\<close>: off, and the lookups go by \<^verbatim>\<open>"warm"\<close>.\<close>

theorem ingest_hvac_mode_witness:
  "priv_update
     (example_appliance\<lparr>settings :=
        [''mode'' \<mapsto> PStr ''warm'', ''temp'' \<mapsto> PStr [], ''button'' \<mapsto> PStr ''power-off'',
         ''vol'' \<mapsto> PStr ''auto'', ''dir'' \<mapsto> PStr []]\<rparr>) example_entity
   = (None, example_entity\<lparr>priv_remo_mode := PStr ''warm'', priv_target_temperature := None,
                               priv_hvac_mode := Some HVAC_MODE_OFF, priv_swing_mode := PNone\<rparr>)
   \<and> fan_modes (example_entity\<lparr>priv_remo_mode := PStr ''warm'', priv_target_temperature := None,
                               priv_hvac_mode := Some HVAC_MODE_OFF, priv_swing_mode := PNone\<rparr>)
       = Inr [PStr ''auto'']
   \<and> swing_modes (example_entity\<lparr>priv_remo_mode := PStr ''warm'', priv_target_temperature := None,
                               priv_hvac_mode := Some HVAC_MODE_OFF, priv_swing_mode := PNone\<rparr>)
       = Inr [PStr ''swing'']"
proof -
  let ?a = "example_appliance\<lparr>settings :=
        [''mode'' \<mapsto> PStr ''warm'', ''temp'' \<mapsto> PStr [], ''button'' \<mapsto> PStr ''power-off'',
         ''vol'' \<mapsto> PStr ''auto'', ''dir'' \<mapsto> PStr []]\<rparr>"
  let ?e = "example_entity\<lparr>priv_remo_mode := PStr ''warm'', priv_target_temperature := None,
                               priv_hvac_mode := Some HVAC_MODE_OFF, priv_swing_mode := PNone\<rparr>"
  have m: "settings ?a ''mode'' = Some (PStr ''warm'')" by simp
  have b: "settings ?a ''button'' = Some (PStr ''power-off'')" by simp
  have v: "settings ?a ''vol'' = Some (PStr ''auto'')" by simp
  have d: "settings ?a ''dir'' = Some (PStr [])" by simp
  have off: "PStr ''power-off'' = PStr ''power-off''
               \<or> getitem_val (map_of MODE_REMO_TO_HA) (PStr ''warm'') = Inr HVAC_MODE_HEAT"
    by simp
  have entry: "getitem_val (priv_modes example_entity) (PStr ''warm'') =
      Inr [''temp'' \<mapsto> [PStr ''18'', PStr [], PStr ''30'', PNone],
           ''vol'' \<mapsto> [PStr ''auto''], ''dir'' \<mapsto> [PStr ''swing'']]"
    by (simp add: getitem_val_def getitem_def example_entity_def example_modes_def)
  have eq: "snd (priv_update ?a example_entity) = ?e"
    by (simp add: priv_update_off [OF m b v d] getitem_def float_of_str_empty py_or_def
        example_entity_def)
  from ingest_hvac_mode [OF m b v d off, of example_entity] entry eq
  show ?thesis
    by (simp add: getitem_def prod_eq_iff)
qed

text \<open>
  C3 as stated fails: the operation mode can be off although the button is not
  \<^verbatim>\<open>"power-off"\<close>, because \<open>MODE_REMO_TO_HA\<close> translates the mode token \<^verbatim>\<open>"power-off"\<close>
  to off.
\<close>

theorem ingest_mode_power_off_token:
  "fst (priv_update
          (example_appliance\<lparr>settings :=
             [''mode'' \<mapsto> PStr ''power-off'', ''temp'' \<mapsto> PStr ''25'', ''button'' \<mapsto> PStr [],
              ''vol'' \<mapsto> PStr ''auto'', ''dir'' \<mapsto> PStr ''auto'']\<rparr>) example_entity) = None
   \<and> priv_hvac_mode (snd (priv_update
          (example_appliance\<lparr>settings :=
             [''mode'' \<mapsto> PStr ''power-off'', ''temp'' \<mapsto> PStr ''25'', ''button'' \<mapsto> PStr [],
              ''vol'' \<mapsto> PStr ''auto'', ''dir'' \<mapsto> PStr ''auto'']\<rparr>) example_entity))
       = Some HVAC_MODE_OFF
   \<and> PStr [] \<noteq> PStr ''power-off''"
  by (simp add: priv_update_def getitem_def getitem_val_def MODE_HA_TO_REMO_def
      MODE_REMO_TO_HA_def Let_def)




subsection \<open>The temperature range of the current mode\<close>



lemma int_of_str_18: "int_of_str ''18'' = Some 18"
  by code_simp

lemma int_of_str_30: "int_of_str ''30'' = Some 30"
  by code_simp




subsection \<open>Commands\<close>




lemma priv_post_eq:
  "priv_post api data w =
     (api (''/appliances/'' @ priv_appliance_id (entity w) @ ''/aircon_settings'') data,
      w\<lparr>api_calls := api_calls w @
          [(''/appliances/'' @ priv_appliance_id (entity w) @ ''/aircon_settings'', data)]\<rparr>)"
  by (simp add: priv_post_def Let_def)

lemma priv_post_entity: "entity (snd (priv_post api data w)) = entity w"
  by (simp add: priv_post_eq)

lemma set_hvac_mode_post:
  "set_hvac_mode api m w =
     priv_post api
       (if m = HVAC_MODE_OFF then [(''button'', PStr ''power-off'')]
        else [(''operation_mode'',
               PStr (case m of
                       HVAC_MODE_AUTO \<Rightarrow> ''auto''
                     | HVAC_MODE_FAN_ONLY \<Rightarrow> ''blow''
                     | HVAC_MODE_COOL \<Rightarrow> ''cool''
                     | HVAC_MODE_DRY \<Rightarrow> ''dry''
                     | HVAC_MODE_HEAT \<Rightarrow> ''warm''
                     | HVAC_MODE_OFF \<Rightarrow> ''power-off'')),
              (''temperature'',
               (case priv_default_temp (entity w) m of None \<Rightarrow> PNone | Some t \<Rightarrow> PInt t))]) w"
  by (cases m) (simp_all add: set_hvac_mode_def ha_to_remo)

lemma init_default_temp:
  "init appl conf = Inr self \<Longrightarrow>
   priv_default_temp self =
     [HVAC_MODE_COOL \<mapsto> CONF_COOL_TEMP conf, HVAC_MODE_HEAT \<mapsto> CONF_HEAT_TEMP conf]"
  by (auto simp: init_def priv_update_def getitem_def Let_def
      split: option.splits sum.splits prod.splits if_splits)

lemma priv_update_default_temp:
  "priv_default_temp (snd (priv_update appl self)) = priv_default_temp self"
  by (simp add: priv_update_def getitem_def Let_def split: option.splits sum.splits)

text \<open>
  C4. For each of the six modes \<open>set_hvac_mode\<close> makes one API call, whatever the client
  answers: for off the payload is \<^verbatim>\<open>{"button": "power-off"}\<close> alone; for any other mode
  it is the raw token under \<^verbatim>\<open>operation_mode\<close> and, under \<^verbatim>\<open>temperature\<close>, what
  \<^verbatim>\<open>_default_temp.get\<close> gives for the mode asked for. With the defaults that \<open>init\<close>
  sets (ingestion leaves them alone, \<open>priv_update_default_temp\<close>) that is the configured
  value for cool and heat and \<^verbatim>\<open>None\<close> for auto, dry and fan-only.
\<close>

theorem set_hvac_mode_payload:
  "set_hvac_mode api m w =
     (api (''/appliances/'' @ priv_appliance_id (entity w) @ ''/aircon_settings'')
        (if m = HVAC_MODE_OFF then [(''button'', PStr ''power-off'')]
         else [(''operation_mode'',
                PStr (case m of
                        HVAC_MODE_AUTO \<Rightarrow> ''auto''
                      | HVAC_MODE_FAN_ONLY \<Rightarrow> ''blow''
                      | HVAC_MODE_COOL \<Rightarrow> ''cool''
                      | HVAC_MODE_DRY \<Rightarrow> ''dry''
                      | HVAC_MODE_HEAT \<Rightarrow> ''warm''
                      | HVAC_MODE_OFF \<Rightarrow> ''power-off'')),
               (''temperature'',
                (case priv_default_temp (entity w) m of None \<Rightarrow> PNone | Some t \<Rightarrow> PInt t))]),
      w\<lparr>api_calls := api_calls w @
          [(''/appliances/'' @ priv_appliance_id (entity w) @ ''/aircon_settings'',
            (if m = HVAC_MODE_OFF then [(''button'', PStr ''power-off'')]
             else [(''operation_mode'',
                    PStr (case m of
                            HVAC_MODE_AUTO \<Rightarrow> ''auto''
                          | HVAC_MODE_FAN_ONLY \<Rightarrow> ''blow''
                          | HVAC_MODE_COOL \<Rightarrow> ''cool''
                          | HVAC_MODE_DRY \<Rightarrow> ''dry''
                          | HVAC_MODE_HEAT \<Rightarrow> ''warm''
                          | HVAC_MODE_OFF \<Rightarrow> ''power-off'')),
                   (''temperature'',
                    (case priv_default_temp (entity w) m of
                       None \<Rightarrow> PNone
                     | Some t \<Rightarrow> PInt t))]))]\<rparr>)
   \<and> (\<forall>appl conf self.
        init appl conf = Inr self \<and> priv_default_temp (entity w) = priv_default_temp self \<longrightarrow>
        (case priv_default_temp (entity w) m of None \<Rightarrow> PNone | Some t \<Rightarrow> PInt t) =
          (case m of
             HVAC_MODE_COOL \<Rightarrow> PInt (CONF_COOL_TEMP conf)
           | HVAC_MODE_HEAT \<Rightarrow> PInt (CONF_HEAT_TEMP conf)
           | _ \<Rightarrow> PNone))"
proof -
  have "(case priv_default_temp (entity w) m of None \<Rightarrow> PNone | Some t \<Rightarrow> PInt t) =
          (case m of
             HVAC_MODE_COOL \<Rightarrow> PInt (CONF_COOL_TEMP conf)
           | HVAC_MODE_HEAT \<Rightarrow> PInt (CONF_HEAT_TEMP conf)
           | _ \<Rightarrow> PNone)"
    if "init appl conf = Inr self" and "priv_default_temp (entity w) = priv_default_temp self"
    for appl conf self
    using init_default_temp [OF that(1)] that(2) by (cases m) simp_all
  then have defaults: "\<forall>appl conf self.
      init appl conf = Inr self \<and> priv_default_temp (entity w) = priv_default_temp self \<longrightarrow>
      (case priv_default_temp (entity w) m of None \<Rightarrow> PNone | Some t \<Rightarrow> PInt t) =
        (case m of
           HVAC_MODE_COOL \<Rightarrow> PInt (CONF_COOL_TEMP conf)
         | HVAC_MODE_HEAT \<Rightarrow> PInt (CONF_HEAT_TEMP conf)
         | _ \<Rightarrow> PNone)"
    by blast
  show ?thesis
    by (rule conjI [OF _ defaults]) (simp add: set_hvac_mode_post priv_post_eq)
qed

text \<open>Heat, auto and off on the example entity, whose defaults are 26 and 20.\<close>

theorem set_hvac_mode_payload_witness:
  "set_hvac_mode api_ok HVAC_MODE_HEAT example_world =
     (None, example_world\<lparr>api_calls :=
        [(''/appliances/ac1/aircon_settings'',
          [(''operation_mode'', PStr ''warm''), (''temperature'', PInt 20)])]\<rparr>)
   \<and> set_hvac_mode api_ok HVAC_MODE_AUTO example_world =
     (None, example_world\<lparr>api_calls :=
        [(''/appliances/ac1/aircon_settings'',
          [(''operation_mode'', PStr ''auto''), (''temperature'', PNone)])]\<rparr>)
   \<and> set_hvac_mode api_ok HVAC_MODE_OFF example_world =
     (None, example_world\<lparr>api_calls :=
        [(''/appliances/ac1/aircon_settings'', [(''button'', PStr ''power-off'')])]\<rparr>)"
proof -
  have i: "init example_appliance example_config = Inr example_entity
      \<and> priv_default_temp (entity example_world) = priv_default_temp example_entity"
    by (simp add: init_example example_world_def)
  have e: "priv_appliance_id (entity example_world) = ''ac1''" "api_calls example_world = []"
    by (simp_all add: example_world_def example_entity_def)
  have c: "CONF_HEAT_TEMP example_config = 20"
    by (simp add: example_config_def)
  let ?t = "\<lambda>m. case priv_default_temp (entity example_world) m of
                   None \<Rightarrow> PNone
                 | Some t \<Rightarrow> PInt t"
  from conjunct2 [OF set_hvac_mode_payload [of api_ok HVAC_MODE_HEAT example_world]] i
  have "?t HVAC_MODE_HEAT =
      (case HVAC_MODE_HEAT of
         HVAC_MODE_COOL \<Rightarrow> PInt (CONF_COOL_TEMP example_config)
       | HVAC_MODE_HEAT \<Rightarrow> PInt (CONF_HEAT_TEMP example_config)
       | _ \<Rightarrow> PNone)"
    by blast
  then have heat: "?t HVAC_MODE_HEAT = PInt 20"
    by (simp add: c)
  from conjunct2 [OF set_hvac_mode_payload [of api_ok HVAC_MODE_AUTO example_world]] i
  have "?t HVAC_MODE_AUTO =
      (case HVAC_MODE_AUTO of
         HVAC_MODE_COOL \<Rightarrow> PInt (CONF_COOL_TEMP example_config)
       | HVAC_MODE_HEAT \<Rightarrow> PInt (CONF_HEAT_TEMP example_config)
       | _ \<Rightarrow> PNone)"
    by blast
  then have auto: "?t HVAC_MODE_AUTO = PNone"
    by simp
  from conjunct1 [OF set_hvac_mode_payload [of api_ok HVAC_MODE_HEAT example_world]]
    conjunct1 [OF set_hvac_mode_payload [of api_ok HVAC_MODE_AUTO example_world]]
    conjunct1 [OF set_hvac_mode_payload [of api_ok HVAC_MODE_OFF example_world]]
  show ?thesis
    by (simp add: e heat auto api_ok_def)
qed

text \<open>
  C5 (amended). Every payload that \<open>set_temperature\<close>, \<open>set_fan_mode\<close> and
  \<open>async_set_swing_mode\<close> hand to the API client holds strings only. \<open>set_hvac_mode\<close>
  makes one call; in its payload every value but the one under \<^verbatim>\<open>temperature\<close> is a
  string, and \<^verbatim>\<open>temperature\<close> is absent for off and otherwise holds what
  \<^verbatim>\<open>_default_temp.get\<close> gives: with the defaults that \<open>init\<close> sets, the configured
  integer for cool and for heat, and \<^verbatim>\<open>None\<close> for auto, dry and fan-only.
\<close>

theorem payload_value_types:
  "(\<exists>calls. api_calls (snd (set_temperature api kwargs w)) = api_calls w @ calls
      \<and> list_all (\<lambda>(path, data). list_all (\<lambda>(k, v). \<exists>s. v = PStr s) data) calls)
   \<and> (\<exists>calls. api_calls (snd (set_fan_mode api fan_mode w)) = api_calls w @ calls
      \<and> length calls = 1
      \<and> list_all (\<lambda>(path, data). list_all (\<lambda>(k, v). \<exists>s. v = PStr s) data) calls)
   \<and> (\<exists>calls. api_calls (snd (async_set_swing_mode api swing_mode w)) = api_calls w @ calls
      \<and> length calls = 1
      \<and> list_all (\<lambda>(path, data). list_all (\<lambda>(k, v). \<exists>s. v = PStr s) data) calls)
   \<and> (\<exists>data. api_calls (snd (set_hvac_mode api m w)) =
          api_calls w @
            [(''/appliances/'' @ priv_appliance_id (entity w) @ ''/aircon_settings'', data)]
      \<and> distinct (map fst data)
      \<and> list_all (\<lambda>(k, v). k = ''temperature'' \<or> (\<exists>s. v = PStr s)) data
      \<and> map_of data ''temperature'' =
          (if m = HVAC_MODE_OFF then None
           else Some (case priv_default_temp (entity w) m of None \<Rightarrow> PNone | Some t \<Rightarrow> PInt t))
      \<and> (\<forall>appl conf self.
            init appl conf = Inr self \<and> priv_default_temp (entity w) = priv_default_temp self \<longrightarrow>
            map_of data ''temperature'' =
              (case m of
                 HVAC_MODE_OFF \<Rightarrow> None
               | HVAC_MODE_COOL \<Rightarrow> Some (PInt (CONF_COOL_TEMP conf))
               | HVAC_MODE_HEAT \<Rightarrow> Some (PInt (CONF_HEAT_TEMP conf))
               | _ \<Rightarrow> Some PNone)))"
proof -
  let ?p = "''/appliances/'' @ priv_appliance_id (entity w) @ ''/aircon_settings''"
  have temperature: "\<exists>calls. api_calls (snd (set_temperature api kwargs w)) = api_calls w @ calls
      \<and> list_all (\<lambda>(path, data). list_all (\<lambda>(k, v). \<exists>s. v = PStr s) data) calls"
  proof (cases "\<exists>v n. kwargs ATTR_TEMPERATURE = Some v \<and> v \<noteq> PNone \<and> py_int v = Inr n")
    case True
    then obtain v n where "kwargs ATTR_TEMPERATURE = Some v" "v \<noteq> PNone" "py_int v = Inr n"
      by blast
    then have "api_calls (snd (set_temperature api kwargs w)) =
        api_calls w @ [(?p, [(''temperature'', PStr (str_int n))])]"
      by (simp add: set_temperature_def priv_post_eq)
    then show ?thesis by simp
  next
    case False
    then have "api_calls (snd (set_temperature api kwargs w)) = api_calls w @ []"
      by (auto simp: set_temperature_def Let_def split: option.splits sum.splits)
    then show ?thesis by (intro exI [of _ "[]"]) simp
  qed
  have "api_calls (snd (set_fan_mode api fan_mode w)) =
      api_calls w @ [(?p, [(''air_volume'', PStr fan_mode)])]"
    by (simp add: set_fan_mode_def priv_post_eq)
  then have fan: "\<exists>calls. api_calls (snd (set_fan_mode api fan_mode w)) = api_calls w @ calls
      \<and> length calls = 1
      \<and> list_all (\<lambda>(path, data). list_all (\<lambda>(k, v). \<exists>s. v = PStr s) data) calls"
    by (intro exI [of _ "[(?p, [(''air_volume'', PStr fan_mode)])]"]) simp
  have "api_calls (snd (async_set_swing_mode api swing_mode w)) =
      api_calls w @ [(?p, [(''air_direction'', PStr swing_mode)])]"
    by (simp add: async_set_swing_mode_def priv_post_eq)
  then have swing: "\<exists>calls. api_calls (snd (async_set_swing_mode api swing_mode w)) = api_calls w @ calls
      \<and> length calls = 1
      \<and> list_all (\<lambda>(path, data). list_all (\<lambda>(k, v). \<exists>s. v = PStr s) data) calls"
    by (intro exI [of _ "[(?p, [(''air_direction'', PStr swing_mode)])]"]) simp
  let ?t = "case priv_default_temp (entity w) m of None \<Rightarrow> PNone | Some t \<Rightarrow> PInt t"
  let ?data = "if m = HVAC_MODE_OFF then [(''button'', PStr ''power-off'')]
        else [(''operation_mode'',
               PStr (case m of
                       HVAC_MODE_AUTO \<Rightarrow> ''auto''
                     | HVAC_MODE_FAN_ONLY \<Rightarrow> ''blow''
                     | HVAC_MODE_COOL \<Rightarrow> ''cool''
                     | HVAC_MODE_DRY \<Rightarrow> ''dry''
                     | HVAC_MODE_HEAT \<Rightarrow> ''warm''
                     | HVAC_MODE_OFF \<Rightarrow> ''power-off'')),
              (''temperature'', ?t)]"
  have calls: "api_calls (snd (set_hvac_mode api m w)) = api_calls w @ [(?p, ?data)]"
    by (simp add: set_hvac_mode_post priv_post_eq)
  have shape: "distinct (map fst ?data)"
    "list_all (\<lambda>(k, v). k = ''temperature'' \<or> (\<exists>s. v = PStr s)) ?data"
    "map_of ?data ''temperature'' = (if m = HVAC_MODE_OFF then None else Some ?t)"
    by simp_all
  have "map_of ?data ''temperature'' =
      (case m of
         HVAC_MODE_OFF \<Rightarrow> None
       | HVAC_MODE_COOL \<Rightarrow> Some (PInt (CONF_COOL_TEMP conf))
       | HVAC_MODE_HEAT \<Rightarrow> Some (PInt (CONF_HEAT_TEMP conf))
       | _ \<Rightarrow> Some PNone)"
    if "init appl conf = Inr self" and "priv_default_temp (entity w) = priv_default_temp self"
    for appl conf self
    using init_default_temp [OF that(1)] that(2) by (cases m) simp_all
  then have defaults: "\<forall>appl conf self.
      init appl conf = Inr self \<and> priv_default_temp (entity w) = priv_default_temp self \<longrightarrow>
      map_of ?data ''temperature'' =
        (case m of
           HVAC_MODE_OFF \<Rightarrow> None
         | HVAC_MODE_COOL \<Rightarrow> Some (PInt (CONF_COOL_TEMP conf))
         | HVAC_MODE_HEAT \<Rightarrow> Some (PInt (CONF_HEAT_TEMP conf))
         | _ \<Rightarrow> Some PNone)"
    by blast
  have hvac: "\<exists>data. api_calls (snd (set_hvac_mode api m w)) = api_calls w @ [(?p, data)]
      \<and> distinct (map fst data)
      \<and> list_all (\<lambda>(k, v). k = ''temperature'' \<or> (\<exists>s. v = PStr s)) data
      \<and> map_of data ''temperature'' = (if m = HVAC_MODE_OFF then None else Some ?t)
      \<and> (\<forall>appl conf self.
            init appl conf = Inr self \<and> priv_default_temp (entity w) = priv_default_temp self \<longrightarrow>
            map_of data ''temperature'' =
              (case m of
                 HVAC_MODE_OFF \<Rightarrow> None
               | HVAC_MODE_COOL \<Rightarrow> Some (PInt (CONF_COOL_TEMP conf))
               | HVAC_MODE_HEAT \<Rightarrow> Some (PInt (CONF_HEAT_TEMP conf))
               | _ \<Rightarrow> Some PNone))"
    using calls shape defaults by (intro exI [of _ ?data] conjI)
  from temperature fan swing hvac show ?thesis
    by (intro conjI)
qed

text \<open>Heat sends the integer 20, dry sends \<^verbatim>\<open>None\<close>, off sends no temperature.\<close>

theorem payload_value_types_witness:
  "(\<exists>data. api_calls (snd (set_hvac_mode api_ok HVAC_MODE_HEAT example_world)) =
        [(''/appliances/ac1/aircon_settings'', data)]
      \<and> map_of data ''temperature'' = Some (PInt 20))
   \<and> (\<exists>data. api_calls (snd (set_hvac_mode api_ok HVAC_MODE_DRY example_world)) =
        [(''/appliances/ac1/aircon_settings'', data)]
      \<and> map_of data ''temperature'' = Some PNone)
   \<and> (\<exists>data. api_calls (snd (set_hvac_mode api_ok HVAC_MODE_OFF example_world)) =
        [(''/appliances/ac1/aircon_settings'', data)]
      \<and> map_of data ''temperature'' = None)"
proof -
  have i: "init example_appliance example_config = Inr example_entity
      \<and> priv_default_temp (entity example_world) = priv_default_temp example_entity"
    by (simp add: init_example example_world_def)
  have e: "priv_appliance_id (entity example_world) = ''ac1''" "api_calls example_world = []"
    by (simp_all add: example_world_def example_entity_def)
  have c: "CONF_HEAT_TEMP example_config = 20"
    by (simp add: example_config_def)
  have inst: "\<exists>data. api_calls (snd (set_hvac_mode api_ok m example_world)) =
        [(''/appliances/ac1/aircon_settings'', data)]
      \<and> map_of data ''temperature'' =
          (case m of
             HVAC_MODE_OFF \<Rightarrow> None
           | HVAC_MODE_COOL \<Rightarrow> Some (PInt (CONF_COOL_TEMP example_config))
           | HVAC_MODE_HEAT \<Rightarrow> Some (PInt (CONF_HEAT_TEMP example_config))
           | _ \<Rightarrow> Some PNone)" for m
  proof -
    from payload_value_types [of api_ok Map.empty example_world "[]" "[]" m]
    obtain data where "api_calls (snd (set_hvac_mode api_ok m example_world)) =
          api_calls example_world @
            [(''/appliances/'' @ priv_appliance_id (entity example_world) @ ''/aircon_settings'', data)]"
      and "\<forall>appl conf self.
            init appl conf = Inr self
            \<and> priv_default_temp (entity example_world) = priv_default_temp self \<longrightarrow>
            map_of data ''temperature'' =
              (case m of
                 HVAC_MODE_OFF \<Rightarrow> None
               | HVAC_MODE_COOL \<Rightarrow> Some (PInt (CONF_COOL_TEMP conf))
               | HVAC_MODE_HEAT \<Rightarrow> Some (PInt (CONF_HEAT_TEMP conf))
               | _ \<Rightarrow> Some PNone)"
      by blast
    with i show ?thesis
      by (intro exI [of _ data]) (simp add: e, blast)
  qed
  from inst [of HVAC_MODE_HEAT] inst [of HVAC_MODE_DRY] inst [of HVAC_MODE_OFF]
  show ?thesis
    by (simp add: c)
qed

text \<open>
  C5 as stated fails: switching to cool sends the default temperature as the integer
  26, not as a string.
\<close>

theorem set_hvac_mode_sends_integer:
  "api_calls (snd (set_hvac_mode api_ok HVAC_MODE_COOL example_world)) =
     [(''/appliances/ac1/aircon_settings'',
       [(''operation_mode'', PStr ''cool''), (''temperature'', PInt 26)])]"
  by (simp add: set_hvac_mode_post priv_post_eq example_world_def example_entity_def)



text \<open>
  C9. None of the four commands changes an attribute of the entity: the entity after
  the call is the entity before it, whatever the arguments and whatever the API client
  answers.
\<close>

theorem commands_keep_entity:
  "entity (snd (set_temperature api kwargs w)) = entity w
   \<and> entity (snd (set_hvac_mode api m w)) = entity w
   \<and> entity (snd (set_fan_mode api fan_mode w)) = entity w
   \<and> entity (snd (async_set_swing_mode api swing_mode w)) = entity w"
proof -
  have "entity (snd (set_temperature api kwargs w)) = entity w"
    by (simp add: set_temperature_def Let_def priv_post_entity split: sum.splits)
  moreover have "entity (snd (set_hvac_mode api m w)) = entity w"
    by (simp add: set_hvac_mode_post priv_post_entity)
  moreover have "entity (snd (set_fan_mode api fan_mode w)) = entity w"
    by (simp add: set_fan_mode_def priv_post_entity)
  moreover have "entity (snd (async_set_swing_mode api swing_mode w)) = entity w"
    by (simp add: async_set_swing_mode_def priv_post_entity)
  ultimately show ?thesis by simp
qed



subsection \<open>Further properties\<close>

text \<open>
  The bounds: when the range of the current mode is \<open>r\<close>, \<open>min_temp\<close> and \<open>max_temp\<close> are
  the least and the greatest element of \<open>r\<close>, whatever its order, and the platform's
  defaults when \<open>r\<close> is empty.
\<close>

theorem min_max_temp:
  assumes "priv_current_mode_temp_range self = Inr r"
  shows "min_temp self = Inr (if r = [] then DEFAULT_MIN_TEMP else Min (set r))
       \<and> max_temp self = Inr (if r = [] then DEFAULT_MAX_TEMP else Max (set r))"
proof (cases r)
  case Nil
  with assms show ?thesis by (simp add: min_temp_def max_temp_def)
next
  case (Cons t ts)
  have "fold min ts t = Min (set (t # ts))" "fold max ts t = Max (set (t # ts))"
    by (simp_all only: Min.set_eq_fold Max.set_eq_fold)
  with assms Cons show ?thesis by (simp add: min_temp_def max_temp_def)
qed

text \<open>A range with no usable element, and a range that is not ascending.\<close>

theorem min_max_temp_witness:
  "min_temp (example_entity\<lparr>priv_remo_mode := PStr ''blow''\<rparr>) = Inr 7
   \<and> max_temp (example_entity\<lparr>priv_remo_mode := PStr ''blow''\<rparr>) = Inr 35
   \<and> min_temp (example_entity\<lparr>priv_remo_mode := PStr ''dry''\<rparr>) = Inr 18
   \<and> max_temp (example_entity\<lparr>priv_remo_mode := PStr ''dry''\<rparr>) = Inr 30"
proof -
  have blow: "priv_current_mode_temp_range (example_entity\<lparr>priv_remo_mode := PStr ''blow''\<rparr>) = Inr []"
    by (simp add: priv_current_mode_temp_range_def getitem_val_def getitem_def example_entity_def
        example_modes_def)
  have dry: "priv_current_mode_temp_range (example_entity\<lparr>priv_remo_mode := PStr ''dry''\<rparr>) = Inr [30, 18]"
    by (simp add: priv_current_mode_temp_range_def getitem_val_def getitem_def example_entity_def
        example_modes_def int_of_str_18 int_of_str_30)
  from min_max_temp [OF blow] min_max_temp [OF dry] show ?thesis
    by (simp add: DEFAULT_MIN_TEMP_def DEFAULT_MAX_TEMP_def)
qed

text \<open>
  Fan and swing after a successful ingestion: the snapshot's \<^verbatim>\<open>vol\<close> and \<^verbatim>\<open>dir\<close>, with
  \<^verbatim>\<open>None\<close> in place of an empty or otherwise false value.
\<close>

theorem ingest_fan_swing:
  assumes "settings appl ''mode'' = Some m" and "settings appl ''button'' = Some b"
    and "settings appl ''vol'' = Some v" and "settings appl ''dir'' = Some d"
    and "b = PStr ''power-off'' \<or> getitem_val (map_of MODE_REMO_TO_HA) m = Inr h"
  shows "priv_fan_mode (snd (priv_update appl self)) = (if py_bool v then v else PNone)
       \<and> priv_swing_mode (snd (priv_update appl self)) = (if py_bool d then d else PNone)"
proof (cases "b = PStr ''power-off''")
  case True
  with assms show ?thesis by (simp add: priv_update_off py_or_def)
next
  case False
  with assms(5) have h: "getitem_val (map_of MODE_REMO_TO_HA) m = Inr h" by simp
  from priv_update_on [OF assms(1,2) False assms(3,4) h, of self] show ?thesis
    by (simp add: py_or_def)
qed

text \<open>An empty \<^verbatim>\<open>vol\<close> and the \<^verbatim>\<open>dir\<close> \<^verbatim>\<open>"3"\<close>.\<close>

theorem ingest_fan_swing_witness:
  "priv_fan_mode (snd (priv_update
      (example_appliance\<lparr>settings := example_settings(''vol'' \<mapsto> PStr [], ''dir'' \<mapsto> PStr ''3'')\<rparr>)
      example_entity)) = PNone
   \<and> priv_swing_mode (snd (priv_update
      (example_appliance\<lparr>settings := example_settings(''vol'' \<mapsto> PStr [], ''dir'' \<mapsto> PStr ''3'')\<rparr>)
      example_entity)) = PStr ''3''"
proof -
  let ?a = "example_appliance\<lparr>settings := example_settings(''vol'' \<mapsto> PStr [], ''dir'' \<mapsto> PStr ''3'')\<rparr>"
  have m: "settings ?a ''mode'' = Some (PStr ''cool'')"
    and b: "settings ?a ''button'' = Some (PStr [])"
    and v: "settings ?a ''vol'' = Some (PStr [])"
    and d: "settings ?a ''dir'' = Some (PStr ''3'')"
    by (simp_all add: example_settings_def)
  have h: "PStr [] = PStr ''power-off''
      \<or> getitem_val (map_of MODE_REMO_TO_HA) (PStr ''cool'') = Inr HVAC_MODE_COOL"
    by (simp add: getitem_val_def getitem_def MODE_REMO_TO_HA_def)
  from ingest_fan_swing [OF m b v d h, of example_entity] show ?thesis
    by simp
qed

text \<open>
  The two integer conversions agree: \<^verbatim>\<open>int\<close> reads back what the f-string of
  \<open>set_temperature\<close> writes.
\<close>

lemma digit_char:
  "(d::nat) < 10 \<Longrightarrow> is_digit (char_of (48 + d)) \<and> digit_val (char_of (48 + d)) = d"
  by (simp add: is_digit_def digit_val_def)

lemma str_nat_digits: "list_all is_digit (str_nat n) \<and> str_nat n \<noteq> []"
proof (induction n rule: str_nat.induct)
  case (1 n)
  show ?case
  proof (cases "n < 10")
    case True
    then show ?thesis by (subst str_nat.simps, subst (2) str_nat.simps) (simp add: digit_char)
  next
    case False
    with 1 have "list_all is_digit (str_nat (n div 10))" by simp
    moreover have "is_digit (char_of (48 + n mod 10))" by (simp add: digit_char)
    ultimately show ?thesis using False
      by (subst str_nat.simps, subst (2) str_nat.simps) simp
  qed
qed


lemma digits_val_snoc: "digits_val (ds @ [c]) = 10 * digits_val ds + digit_val c"
  by (simp add: digits_val_def)

lemma digits_val_str_nat: "digits_val (str_nat n) = n"
proof (induction n rule: str_nat.induct)
  case (1 n)
  show ?case
  proof (cases "n < 10")
    case True
    then show ?thesis
      by (subst str_nat.simps) (simp add: digits_val_def digit_char)
  next
    case False
    with 1 have "digits_val (str_nat (n div 10)) = n div 10" by simp
    then have "digits_val (str_nat (n div 10) @ [char_of (48 + n mod 10)]) = n"
      by (simp add: digits_val_snoc digit_char)
    with False show ?thesis by (subst str_nat.simps) simp
  qed
qed

lemma underscores_ok_digits:
  "list_all is_digit ds \<Longrightarrow> prev \<noteq> Some CHR ''_'' \<Longrightarrow> underscores_ok prev ds"
proof (induction ds arbitrary: prev)
  case Nil
  then show ?case by simp
next
  case (Cons c cs)
  then have "c \<noteq> CHR ''_''" by (auto simp: is_digit_def)
  with Cons show ?case by simp
qed

lemma drop_underscores_digits: "list_all is_digit ds \<Longrightarrow> drop_underscores ds = ds"
  by (induction ds) (auto simp: drop_underscores_def is_digit_def)

lemma digit_not_space: "is_digit c \<Longrightarrow> \<not> is_space c"
  by (simp add: is_digit_def is_space_def Let_def)

lemma strip_id:
  assumes "s \<noteq> []" and "\<not> is_space (hd s)" and "\<not> is_space (last s)"
  shows "strip s = s"
proof -
  have none: "dropWhile is_space xs = xs" if "xs \<noteq> []" "\<not> is_space (hd xs)" for xs
    using that by (cases xs) auto
  from assms have "dropWhile is_space (rev s) = rev s"
    by (intro none) (simp_all add: hd_rev)
  with assms show ?thesis
    by (simp add: strip_def none)
qed

lemma strip_digits:
  assumes "list_all is_digit ds" and "ds \<noteq> []"
  shows "strip ds = ds" and "strip (CHR ''-'' # ds) = CHR ''-'' # ds"
proof -
  from assms have "is_digit (hd ds)" "is_digit (last ds)"
    by (simp_all add: list_all_iff)
  then have sp: "\<not> is_space (hd ds)" "\<not> is_space (last ds)"
    by (simp_all add: digit_not_space)
  with assms(2) show "strip ds = ds"
    by (rule strip_id)
  have "\<not> is_space CHR ''-''"
    by (simp add: is_space_def)
  with assms(2) sp show "strip (CHR ''-'' # ds) = CHR ''-'' # ds"
    by (intro strip_id) simp_all
qed

lemma take_sign_digits: "list_all is_digit ds \<Longrightarrow> take_sign ds = (False, ds)"
  by (cases ds) (auto simp: is_digit_def)

theorem int_of_str_str_int: "int_of_str (str_int i) = Some i"
proof -
  let ?ds = "str_nat (nat \<bar>i\<bar>)"
  have ds: "list_all is_digit ?ds" "?ds \<noteq> []"
    using str_nat_digits by blast+
  then have all: "list_all (\<lambda>c. is_digit c \<or> c = CHR ''_'') ?ds"
    by (simp add: list_all_iff)
  have ok: "underscores_ok None ?ds"
    by (rule underscores_ok_digits [OF ds(1)]) simp
  show ?thesis
  proof (cases "i < 0")
    case True
    then have "str_int i = CHR ''-'' # ?ds" by (simp add: str_int_def abs_if)
    with True ds all ok show ?thesis
      by (simp add: int_of_str_def strip_digits drop_underscores_digits digits_val_str_nat)
  next
    case False
    then have "str_int i = ?ds" by (simp add: str_int_def abs_if)
    with False ds all ok show ?thesis
      by (simp add: int_of_str_def strip_digits take_sign_digits drop_underscores_digits
          digits_val_str_nat)
  qed
qed

end
